theory Spec2Isabelle
  imports Main
begin

section \<open>Data model of \<open>Tools/generate_sprites.py\<close>\<close>

text \<open>
  A colour-name token is a Python string; a pixel grid is a list of rows of tokens.
  A palette is a dictionary from a category name to a list of hex colour strings; it is
  kept as an association list in the order of the dictionary literal.
\<close>

type_synonym palette = "(string \<times> string list) list"

text \<open>
  The values stored in the resolution table \<open>color_map\<close> are of two Python types: the
  palette loop stores the colour string itself (\<open>color_map[color] = color\<close>), every
  other entry is an RGBA 4-tuple of ints.
\<close>

datatype colour = Str string | RGBA int int int int

datatype py_error = KeyError | IndexError | TypeError | ValueError

text \<open>
  The image buffer: its size \<open>(width, height)\<close> and its rows of pixel values. An
  image has natural dimensions, and its pixels are RGBA tuples: the write primitive below
  refuses every other value.
\<close>

record image =
  img_size :: "nat \<times> nat"
  img_data :: "colour list list"

section \<open>Static tables\<close>

definition PALETTES :: "(string \<times> palette) list" where
  "PALETTES =
    [(''stone_age'',
       [(''skin'', [''#D4A574'', ''#C49A6C'', ''#B8956A'']),
        (''clothing'', [''#8B4513'', ''#654321'', ''#4A3728'']),
        (''hair'', [''#2C1810'', ''#3D2314'', ''#1A0F0A'']),
        (''terrain'', [''#7CFC00'', ''#228B22'', ''#808080'', ''#8B7355''])]),
     (''ancient'',
       [(''skin'', [''#F5D0A9'', ''#E5BE98'', ''#D4A574'']),
        (''clothing'', [''#E6C288'', ''#D4B896'', ''#C4A876'']),
        (''hair'', [''#1A1A1A'', ''#3D3D3D'', ''#4A4A4A'']),
        (''terrain'', [''#DEB887'', ''#D2B48C'', ''#BC8F8F'', ''#8B7355''])]),
     (''classical'',
       [(''skin'', [''#F5DEB3'', ''#FFE4C4'', ''#DEB887'']),
        (''clothing'', [''#FFFFFF'', ''#F5F5DC'', ''#E8E8D8'']),
        (''hair'', [''#FFD700'', ''#DAA520'', ''#B8860B'']),
        (''terrain'', [''#F5F5F5'', ''#D3D3D3'', ''#C0C0C0'', ''#A9A9A9''])]),
     (''medieval'',
       [(''skin'', [''#F5DEB3'', ''#DEB887'', ''#D2B48C'']),
        (''clothing'', [''#8B0000'', ''#4A0080'', ''#000080'', ''#2F4F4F'']),
        (''hair'', [''#2F2F2F'', ''#4A4A4A'', ''#696969'']),
        (''terrain'', [''#8B4513'', ''#A0522D'', ''#6B8E23'', ''#556B2F''])]),
     (''renaissance'',
       [(''skin'', [''#FFE4C4'', ''#FFDAB9'', ''#F5DEB3'']),
        (''clothing'', [''#800020'', ''#4B0082'', ''#00008B'', ''#006400'']),
        (''hair'', [''#2F2F2F'', ''#4A3728'', ''#8B4513'']),
        (''terrain'', [''#DAA520'', ''#B8860B'', ''#CD853F'', ''#D2691E''])]),
     (''industrial'',
       [(''skin'', [''#FFE4C4'', ''#F5DEB3'', ''#DEB887'']),
        (''clothing'', [''#2F2F2F'', ''#4A4A4A'', ''#696969'', ''#808080'']),
        (''hair'', [''#1A1A1A'', ''#2F2F2F'', ''#4A4A4A'']),
        (''terrain'', [''#696969'', ''#808080'', ''#A9A9A9'', ''#C0C0C0''])]),
     (''modern'',
       [(''skin'', [''#FFE4C4'', ''#F5DEB3'', ''#DEB887'', ''#C4A574'']),
        (''clothing'', [''#000080'', ''#8B0000'', ''#2F4F4F'', ''#4A0080'']),
        (''hair'', [''#1A1A1A'', ''#4A4A4A'', ''#8B4513'', ''#D2B48C'']),
        (''terrain'', [''#808080'', ''#A9A9A9'', ''#C0C0C0'', ''#D3D3D3''])]),
     (''future'',
       [(''skin'', [''#E8E8E8'', ''#D0D0D0'', ''#B8B8B8'']),
        (''clothing'', [''#00FFFF'', ''#FF00FF'', ''#FFFF00'', ''#00FF00'']),
        (''hair'', [''#00CED1'', ''#9400D3'', ''#00FF00'', ''#FF1493'']),
        (''terrain'', [''#1a1a2e'', ''#16213e'', ''#0f3460'', ''#533483''])])]"

definition ANIMATIONS :: "string list" where
  "ANIMATIONS = [''idle'', ''walk'', ''run'', ''work'', ''attack'', ''sleep'']"

definition DIRECTIONS :: "string list" where
  "DIRECTIONS = [''up'', ''down'', ''left'', ''right'']"

section \<open>Python primitives used by the generator\<close>

text \<open>\<open>range(n)\<close> on a Python int: empty when \<open>n \<le> 0\<close>.\<close>

definition py_range :: "int \<Rightarrow> int list" where
  "py_range n = map int [0..<nat n]"

text \<open>\<open>for i in xs: body\<close> over a state, stopping at the first raised error.\<close>

fun for_each :: "'a list \<Rightarrow> ('a \<Rightarrow> 's \<Rightarrow> py_error + 's) \<Rightarrow> 's \<Rightarrow> py_error + 's" where
  "for_each [] body s = Inr s"
| "for_each (i # rest) body s =
     (case body i s of Inl e \<Rightarrow> Inl e | Inr s' \<Rightarrow> for_each rest body s')"

text \<open>\<open>xs[i]\<close> for a non-negative index: raises \<open>IndexError\<close> out of range.\<close>

definition index :: "'a list \<Rightarrow> nat \<Rightarrow> py_error + 'a" where
  "index xs i = (if i < length xs then Inr (xs ! i) else Inl IndexError)"

text \<open>\<open>d[k]\<close> on a dictionary literal: raises \<open>KeyError\<close> for a missing key.\<close>

definition getitem :: "('k \<times> 'v) list \<Rightarrow> 'k \<Rightarrow> py_error + 'v" where
  "getitem d k = (case map_of d k of None \<Rightarrow> Inl KeyError | Some v \<Rightarrow> Inr v)"

text \<open>
  \<open>Image.new('RGBA', (width, height), fill)\<close> on Python ints: the imaging library
  raises \<open>ValueError\<close> for a negative width or height.
\<close>

definition Image_new :: "int \<times> int \<Rightarrow> colour \<Rightarrow> py_error + image" where
  "Image_new sz fill =
     (case sz of (width, height) \<Rightarrow>
        if width < 0 \<or> height < 0 then Inl ValueError
        else Inr \<lparr>img_size = (nat width, nat height),
                  img_data = replicate (nat height) (replicate (nat width) fill)\<rparr>)"

text \<open>
  \<open>pixels_img[x, y] = value\<close>: the imaging library raises \<open>IndexError\<close> for a
  coordinate outside the image, and \<open>TypeError\<close> for a value that is not a tuple of
  ints, such as the colour string the palette loop stores in \<open>color_map\<close>.
\<close>

definition putpixel :: "image \<Rightarrow> nat \<Rightarrow> nat \<Rightarrow> colour \<Rightarrow> py_error + image" where
  "putpixel img x y v =
     (if x < fst (img_size img) \<and> y < snd (img_size img) then
        (case v of
           Str s \<Rightarrow> Inl TypeError
         | RGBA r g b a \<Rightarrow>
             Inr (img\<lparr>img_data :=
                    (img_data img)[y := (img_data img ! y)[x := RGBA r g b a]]\<rparr>))
      else Inl IndexError)"

section \<open>Palette resolver and rasterizer: \<open>create_pixel_image\<close>\<close>

text \<open>
  The resolution table. \<open>if palette:\<close> is Python truthiness: \<open>None\<close> and the empty
  dictionary both take the \<open>else\<close> branch.
\<close>

definition default_color_map :: "string \<rightharpoonup> colour" where
  "default_color_map =
     [''transparent'' \<mapsto> RGBA 0 0 0 0,
      ''#8B4513'' \<mapsto> RGBA 139 69 19 255,
      ''#228B22'' \<mapsto> RGBA 34 139 34 255,
      ''#D2B48C'' \<mapsto> RGBA 210 180 140 255,
      ''#2F2F2F'' \<mapsto> RGBA 47 47 47 255,
      ''stone'' \<mapsto> RGBA 128 128 128 255,
      ''terrain'' \<mapsto> RGBA 139 69 19 255]"

definition palette_color_map :: "palette \<Rightarrow> (string \<rightharpoonup> colour)" where
  "palette_color_map palette =
     (fold (\<lambda>era_colors m. fold (\<lambda>color m'. m'(color \<mapsto> Str color)) era_colors m)
           (map snd palette) Map.empty)
       (''transparent'' \<mapsto> RGBA 0 0 0 0,
        ''#000000'' \<mapsto> RGBA 0 0 0 255,
        ''#FFFFFF'' \<mapsto> RGBA 255 255 255 255,
        ''#2F2F2F'' \<mapsto> RGBA 47 47 47 255,
        ''stone'' \<mapsto> RGBA 128 128 128 255,
        ''terrain'' \<mapsto> RGBA 139 69 19 255)"

definition build_color_map :: "palette option \<Rightarrow> (string \<rightharpoonup> colour)" where
  "build_color_map palette =
     (case palette of
        None \<Rightarrow> default_color_map
      | Some p \<Rightarrow> if p = [] then default_color_map else palette_color_map p)"

text \<open>The body of the inner loop, at column \<open>x\<close> of row \<open>y\<close>.\<close>

definition paint :: "(string \<rightharpoonup> colour) \<Rightarrow> string list list \<Rightarrow> nat \<Rightarrow> nat \<Rightarrow> image
    \<Rightarrow> py_error + image" where
  "paint color_map pixels y x img =
     (if y < length pixels then
        (case index pixels y of
           Inl e \<Rightarrow> Inl e
         | Inr row \<Rightarrow>
             if x < length row then
               (case index row x of
                  Inl e \<Rightarrow> Inl e
                | Inr color_name \<Rightarrow>
                    (case color_map color_name of
                       Some v \<Rightarrow> putpixel img x y v
                     | None \<Rightarrow> Inr img))
             else Inr img)
      else Inr img)"

text \<open>
  The rasterizer. \<open>width\<close> and \<open>height\<close> are Python ints; \<open>range(height)\<close> and
  \<open>range(width)\<close> run over the naturals below them.
\<close>

definition create_pixel_image :: "int \<Rightarrow> int \<Rightarrow> string list list \<Rightarrow> palette option
    \<Rightarrow> py_error + image" where
  "create_pixel_image width height pixels palette =
     (let color_map = build_color_map palette
      in case Image_new (width, height) (RGBA 0 0 0 0) of
           Inl e \<Rightarrow> Inl e
         | Inr img \<Rightarrow>
             for_each [0..<nat height]
               (\<lambda>y. for_each [0..<nat width] (\<lambda>x. paint color_map pixels y x)) img)"

section \<open>Region classifiers\<close>

text \<open>
  Each classifier takes its \<open>size\<close> tuple of Python ints (the driver calls them with the
  default sizes), appends one token per column to a fresh row and one row per \<open>y\<close> to
  the grid. The threshold \<open>height - 4\<close> is an integer subtraction and may be negative.
\<close>

definition generate_npc_base_sprite :: "int \<times> int \<Rightarrow> string list list" where
  "generate_npc_base_sprite sz =
     (case sz of (width, height) \<Rightarrow>
        fold (\<lambda>y pixels. pixels @
               [fold (\<lambda>x row. row @
                       [if y < 4 then ''skin''
                        else if y < 8 then ''skin''
                        else if y < 16 then ''clothing''
                        else ''clothing''])
                     (py_range width) []])
             (py_range height) [])"

definition generate_building_sprite :: "string \<Rightarrow> int \<times> int \<Rightarrow> string list list" where
  "generate_building_sprite building_type sz =
     (case sz of (width, height) \<Rightarrow>
        fold (\<lambda>y pixels. pixels @
               [fold (\<lambda>x row. row @
                       [if y < 4 then ''terrain''
                        else if y < height - 4 then ''stone''
                        else ''#2F2F2F''])
                     (py_range width) []])
             (py_range height) [])"

definition generate_terrain_tile :: "int \<times> int \<Rightarrow> string list list" where
  "generate_terrain_tile sz =
     (case sz of (width, height) \<Rightarrow>
        fold (\<lambda>y pixels. pixels @
               [fold (\<lambda>x row. row @ [''terrain_base'']) (py_range width) []])
             (py_range height) [])"

definition generate_ui_icon :: "string \<Rightarrow> int \<times> int \<Rightarrow> string list list" where
  "generate_ui_icon icon_type sz =
     (case sz of (width, height) \<Rightarrow>
        fold (\<lambda>y pixels. pixels @
               [fold (\<lambda>x row. row @
                       [if y < 2 \<or> y \<ge> height - 2 \<or> x < 2 \<or> x \<ge> width - 2
                        then ''border'' else ''background''])
                     (py_range width) []])
             (py_range height) [])"

section \<open>Driver: \<open>generate_all_sprites\<close>, \<open>create_sprite_atlas_config\<close>, \<open>main\<close>\<close>

text \<open>
  The images built in the bodies of the four driver loops. The classifiers are called
  with their default sizes, characters are rasterized with the palette of their era
  (\<open>PALETTES[era]\<close>), everything else without a palette.
\<close>

definition npc_image :: "string \<Rightarrow> string \<Rightarrow> string \<Rightarrow> py_error + image" where
  "npc_image era animation direction =
     (let base_pixels = generate_npc_base_sprite (16, 24)
      in case getitem PALETTES era of
           Inl e \<Rightarrow> Inl e
         | Inr palette \<Rightarrow> create_pixel_image 16 24 base_pixels (Some palette))"

definition building_image :: "string \<Rightarrow> py_error + image" where
  "building_image building =
     (let base_pixels = generate_building_sprite building (32, 32)
      in create_pixel_image 32 32 base_pixels None)"

definition terrain_image :: "string \<Rightarrow> py_error + image" where
  "terrain_image terrain =
     (let base_pixels = generate_terrain_tile (16, 16)
      in create_pixel_image 16 16 base_pixels None)"

definition icon_image :: "string \<Rightarrow> py_error + image" where
  "icon_image icon =
     (let base_pixels = generate_ui_icon icon (16, 16)
      in create_pixel_image 16 16 base_pixels None)"

text \<open>
  The file system is the list of files written, in order: a path (its components) and
  the image saved there.
\<close>

type_synonym files = "(string list \<times> image) list"

definition save_sprite_pil :: "image \<Rightarrow> string list \<Rightarrow> files \<Rightarrow> files" where
  "save_sprite_pil img filepath fs = fs @ [(filepath, img)]"

definition save_result :: "py_error + image \<Rightarrow> string list \<Rightarrow> files \<Rightarrow> py_error + files" where
  "save_result r filepath fs =
     (case r of Inl e \<Rightarrow> Inl e | Inr img \<Rightarrow> Inr (save_sprite_pil img filepath fs))"

definition buildings :: "string list" where
  "buildings = [''cave'', ''tent'', ''campfire'', ''hut'', ''house'', ''castle'', ''palace'',
                ''factory'', ''skyscraper'', ''temple'', ''market'']"

definition terrains :: "string list" where
  "terrains = [''grassland'', ''forest'', ''desert'', ''ocean'', ''mountain'', ''snow'',
               ''swamp'']"

definition icons :: "string list" where
  "icons = [''food'', ''wood'', ''stone'', ''gold'', ''iron'', ''population'', ''science'',
            ''culture'', ''faith'', ''happy'', ''military'']"

definition generate_npcs :: "string \<Rightarrow> files \<Rightarrow> py_error + files" where
  "generate_npcs output_dir =
     for_each (map fst PALETTES) (\<lambda>era.
       for_each ANIMATIONS (\<lambda>animation.
         for_each DIRECTIONS (\<lambda>direction.
           save_result (npc_image era animation direction)
             [output_dir, ''Sprites'', ''NPCs'', era, animation, direction @ ''.png''])))"

definition generate_buildings :: "string \<Rightarrow> files \<Rightarrow> py_error + files" where
  "generate_buildings output_dir =
     for_each buildings (\<lambda>building.
       save_result (building_image building)
         [output_dir, ''Sprites'', ''Buildings'', building @ ''.png''])"

definition generate_terrains :: "string \<Rightarrow> files \<Rightarrow> py_error + files" where
  "generate_terrains output_dir =
     for_each terrains (\<lambda>terrain.
       save_result (terrain_image terrain)
         [output_dir, ''Sprites'', ''Terrain'', terrain @ ''.png''])"

definition generate_icons :: "string \<Rightarrow> files \<Rightarrow> py_error + files" where
  "generate_icons output_dir =
     for_each icons (\<lambda>icon.
       save_result (icon_image icon)
         [output_dir, ''Sprites'', ''UI'', icon @ ''.png''])"

definition generate_all_sprites :: "string \<Rightarrow> py_error + files" where
  "generate_all_sprites output_dir =
     (case generate_npcs output_dir [] of
        Inl e \<Rightarrow> Inl e
      | Inr fs1 \<Rightarrow>
          (case generate_buildings output_dir fs1 of
             Inl e \<Rightarrow> Inl e
           | Inr fs2 \<Rightarrow>
               (case generate_terrains output_dir fs2 of
                  Inl e \<Rightarrow> Inl e
                | Inr fs3 \<Rightarrow> generate_icons output_dir fs3)))"

text \<open>The atlas descriptor: the Python value handed to \<open>json.dump\<close>, and its path.\<close>

datatype json =
    JString string
  | JInt int
  | JBool bool
  | JArray "json list"
  | JObject "(string \<times> json) list"

definition create_sprite_atlas_config :: "string \<Rightarrow> string list \<times> json" where
  "create_sprite_atlas_config output_dir =
     (let config = JObject
            [(''atlas_name'', JString ''ChronoCiv_Sprites''),
             (''sprites'', JArray []),
             (''packing'', JObject
                [(''power_of_two'', JBool True),
                 (''padding'', JInt 2),
                 (''extrude'', JInt 1)])];
          config_file = [output_dir, ''sprite_atlas_config.json'']
      in (config_file, config))"

definition main :: "string \<Rightarrow> py_error + files \<times> (string list \<times> json)" where
  "main output =
     (case generate_all_sprites output of
        Inl e \<Rightarrow> Inl e
      | Inr fs \<Rightarrow> Inr (fs, create_sprite_atlas_config output))"

section \<open>Specification-side notions\<close>

text \<open>
  The colour a pixel ends with, read off the grid and the resolution table: the value of
  the token at \<open>(x, y)\<close> when the grid has such a cell and the table has the token,
  the transparent fill otherwise. The rasterizer's loops are shown below to compute
  exactly this whenever no resolved value is a colour string
  (\<open>create_pixel_image_eq\<close>).
\<close>

definition resolved :: "(string \<rightharpoonup> colour) \<Rightarrow> string list list \<Rightarrow> nat \<Rightarrow> nat
    \<Rightarrow> colour option" where
  "resolved color_map pixels y x =
     (if y < length pixels \<and> x < length (pixels ! y) then color_map (pixels ! y ! x)
      else None)"

definition pixel_of :: "(string \<rightharpoonup> colour) \<Rightarrow> string list list \<Rightarrow> nat \<Rightarrow> nat \<Rightarrow> colour" where
  "pixel_of color_map pixels y x =
     (case resolved color_map pixels y x of Some v \<Rightarrow> v | None \<Rightarrow> RGBA 0 0 0 0)"

text \<open>
  The row bands of the building and character classifiers as the specification lists them
  (a condition on the row and the band's token), and the two ways of choosing among the
  bands a row matches.
\<close>

definition building_bands :: "int \<Rightarrow> ((int \<Rightarrow> bool) \<times> string) list" where
  "building_bands H =
     [(\<lambda>y. y < 4, ''terrain''),
      (\<lambda>y. 4 \<le> y \<and> y < H - 4, ''stone''),
      (\<lambda>y. y \<ge> H - 4, ''#2F2F2F'')]"

definition character_bands :: "((int \<Rightarrow> bool) \<times> string) list" where
  "character_bands =
     [(\<lambda>y. y < 4, ''skin''),
      (\<lambda>y. 4 \<le> y \<and> y < 8, ''skin''),
      (\<lambda>y. 8 \<le> y \<and> y < 16, ''clothing''),
      (\<lambda>y. y \<ge> 16, ''clothing'')]"

definition matching :: "((int \<Rightarrow> bool) \<times> string) list \<Rightarrow> int \<Rightarrow> string list" where
  "matching bands y = map snd (filter (\<lambda>band. fst band y) bands)"

definition first_matching :: "((int \<Rightarrow> bool) \<times> string) list \<Rightarrow> int \<Rightarrow> string option" where
  "first_matching bands y =
     (case matching bands y of [] \<Rightarrow> None | t # ts \<Rightarrow> Some t)"

definition last_matching :: "((int \<Rightarrow> bool) \<times> string) list \<Rightarrow> int \<Rightarrow> string option" where
  "last_matching bands y =
     (case rev (matching bands y) of [] \<Rightarrow> None | t # ts \<Rightarrow> Some t)"

section \<open>Helper lemmas\<close>

lemma fold_append_map: "fold (\<lambda>x acc. acc @ [f x]) xs acc0 = acc0 @ map f xs"
  by (induction xs arbitrary: acc0) simp_all

lemma length_py_range: "length (py_range n) = nat n"
  by (simp add: py_range_def)

lemma nth_py_range: "i < nat n \<Longrightarrow> py_range n ! i = int i"
  by (simp add: py_range_def)

lemma for_each_append:
  "for_each (xs @ ys) body s =
     (case for_each xs body s of Inl e \<Rightarrow> Inl e | Inr s' \<Rightarrow> for_each ys body s')"
  by (induction xs arbitrary: s) (simp_all split: sum.splits)

lemma paint_resolved:
  "paint cm pixels y x img =
     (case resolved cm pixels y x of None \<Rightarrow> Inr img | Some v \<Rightarrow> putpixel img x y v)"
  by (simp add: paint_def resolved_def index_def)

lemma putpixel_tuple:
  assumes "x < fst (img_size img)" "y < snd (img_size img)" "\<And>s. v \<noteq> Str s"
  shows "putpixel img x y v =
     Inr (img\<lparr>img_data := (img_data img)[y := (img_data img ! y)[x := v]]\<rparr>)"
  using assms by (cases v) (auto simp: putpixel_def)

lemma inner_loop:
  assumes "img_size img = (w, h)" "y < h" "length (img_data img) = h"
    "length (img_data img ! y) = w" "k \<le> w"
    and tuples: "\<And>x s. x < w \<Longrightarrow> resolved cm pixels y x \<noteq> Some (Str s)"
  shows "for_each [0..<k] (\<lambda>x. paint cm pixels y x) img =
     Inr (img\<lparr>img_data := (img_data img)[y :=
        map (\<lambda>x. if x < k then (case resolved cm pixels y x of Some v \<Rightarrow> v
                                 | None \<Rightarrow> img_data img ! y ! x)
                  else img_data img ! y ! x) [0..<w]]\<rparr>)"
  using assms(5)
proof (induction k)
  case 0
  have "map (\<lambda>x. img_data img ! y ! x) [0..<w] = img_data img ! y"
    using assms(4) by (auto intro!: nth_equalityI)
  then show ?case by simp
next
  case (Suc k)
  let ?old = "img_data img ! y"
  let ?row = "\<lambda>k. map (\<lambda>x. if x < k then (case resolved cm pixels y x of Some v \<Rightarrow> v
                                 | None \<Rightarrow> ?old ! x) else ?old ! x) [0..<w]"
  let ?mid = "img\<lparr>img_data := (img_data img)[y := ?row k]\<rparr>"
  from Suc have k: "k < w" and IH: "for_each [0..<k] (\<lambda>x. paint cm pixels y x) img = Inr ?mid"
    by simp_all
  have upd: "(?row k)[k := v] = ?row (Suc k)" if "resolved cm pixels y k = Some v" for v
    using k that by (auto intro!: nth_equalityI simp: nth_list_update less_Suc_eq)
  have same: "?row k = ?row (Suc k)" if "resolved cm pixels y k = None"
    using k that by (auto intro!: nth_equalityI simp: less_Suc_eq)
  have "paint cm pixels y k ?mid = Inr (img\<lparr>img_data := (img_data img)[y := ?row (Suc k)]\<rparr>)"
  proof (cases "resolved cm pixels y k")
    case None
    then have "paint cm pixels y k ?mid = Inr ?mid"
      by (simp add: paint_resolved)
    with same[OF None] show ?thesis by (simp only:)
  next
    case (Some v)
    have "v \<noteq> Str s" for s using tuples[OF k] Some by auto
    then have "putpixel ?mid k y v =
        Inr (?mid\<lparr>img_data := (img_data ?mid)[y := (img_data ?mid ! y)[k := v]]\<rparr>)"
      using k assms(1,2) by (intro putpixel_tuple) simp_all
    then have "paint cm pixels y k ?mid =
        Inr (img\<lparr>img_data := (img_data img)[y := (?row k)[k := v]]\<rparr>)"
      using Some assms(2,3) by (simp add: paint_resolved)
    with upd[OF Some] show ?thesis by (simp only:)
  qed
  then show ?case using IH by (simp add: for_each_append)
qed

lemma outer_loop:
  assumes "j \<le> h"
    and tuples: "\<And>y x s. y < h \<Longrightarrow> x < w \<Longrightarrow> resolved cm pixels y x \<noteq> Some (Str s)"
  shows "for_each [0..<j] (\<lambda>y. for_each [0..<w] (\<lambda>x. paint cm pixels y x))
           \<lparr>img_size = (w, h), img_data = replicate h (replicate w (RGBA 0 0 0 0))\<rparr> =
     Inr \<lparr>img_size = (w, h), img_data =
        map (\<lambda>y. if y < j then map (pixel_of cm pixels y) [0..<w]
                  else replicate w (RGBA 0 0 0 0)) [0..<h]\<rparr>"
  using assms(1)
proof (induction j)
  case 0
  show ?case by (auto intro!: nth_equalityI)
next
  case (Suc j)
  let ?rows = "\<lambda>j. map (\<lambda>y. if y < j then map (pixel_of cm pixels y) [0..<w]
                  else replicate w (RGBA 0 0 0 0)) [0..<h]"
  let ?mid = "\<lparr>img_size = (w, h), img_data = ?rows j\<rparr>"
  from Suc have j: "j < h" and IH: "for_each [0..<j] (\<lambda>y. for_each [0..<w] (\<lambda>x. paint cm pixels y x))
           \<lparr>img_size = (w, h), img_data = replicate h (replicate w (RGBA 0 0 0 0))\<rparr> = Inr ?mid"
    by simp_all
  have row: "map (\<lambda>x. if x < w then (case resolved cm pixels j x of Some v \<Rightarrow> v
                                 | None \<Rightarrow> img_data ?mid ! j ! x)
                  else img_data ?mid ! j ! x) [0..<w] = map (pixel_of cm pixels j) [0..<w]"
    using j by (auto simp: pixel_of_def split: option.splits)
  have "for_each [0..<w] (\<lambda>x. paint cm pixels j x) ?mid =
      Inr (?mid\<lparr>img_data := (img_data ?mid)[j := map (pixel_of cm pixels j) [0..<w]]\<rparr>)"
    using inner_loop[of ?mid w h j w cm pixels] j row tuples[OF j] by simp
  moreover have "(?rows j)[j := map (pixel_of cm pixels j) [0..<w]] = ?rows (Suc j)"
    using j by (auto intro!: nth_equalityI simp: nth_list_update less_Suc_eq)
  ultimately show ?case using IH by (simp add: for_each_append)
qed

lemma create_pixel_image_eq:
  assumes "0 \<le> w" "0 \<le> h"
    and "\<And>y x s. y < nat h \<Longrightarrow> x < nat w \<Longrightarrow>
           resolved (build_color_map palette) pixels y x \<noteq> Some (Str s)"
  shows "create_pixel_image w h pixels palette =
     Inr \<lparr>img_size = (nat w, nat h), img_data =
        map (\<lambda>y. map (pixel_of (build_color_map palette) pixels y) [0..<nat w]) [0..<nat h]\<rparr>"
  using outer_loop[of "nat h" "nat h" "nat w" "build_color_map palette" pixels] assms
  by (simp add: create_pixel_image_def Image_new_def)

lemma default_color_map_tuple: "default_color_map t \<noteq> Some (Str s)"
  by (simp add: default_color_map_def)

lemma create_pixel_image_default_eq:
  assumes "0 \<le> w" "0 \<le> h"
  shows "create_pixel_image w h pixels None =
     Inr \<lparr>img_size = (nat w, nat h), img_data =
        map (\<lambda>y. map (pixel_of (build_color_map None) pixels y) [0..<nat w]) [0..<nat h]\<rparr>"
proof -
  have cm: "build_color_map None = default_color_map" by (simp add: build_color_map_def)
  have "resolved (build_color_map None) pixels y x \<noteq> Some (Str s)" for y x s
    by (simp add: cm resolved_def default_color_map_tuple)
  then show ?thesis using assms by (intro create_pixel_image_eq)
qed

subsection \<open>Nested loops, for any body, visit the coordinates in row-major order\<close>

lemma for_each_map: "for_each (map f xs) body s = for_each xs (\<lambda>x. body (f x)) s"
  by (induction xs arbitrary: s) (simp_all split: sum.splits)

lemma for_each_nested:
  "for_each ys (\<lambda>y. for_each xs (\<lambda>x. body y x)) s =
     for_each (concat (map (\<lambda>y. map (Pair y) xs) ys)) (\<lambda>(y, x). body y x) s"
  by (induction ys arbitrary: s) (simp_all add: for_each_append for_each_map split: sum.splits)

lemma row_major_index:
  "concat (map (\<lambda>y. map (Pair y) [0..<w]) [0..<h]) =
     map (\<lambda>k. (k div w, k mod w)) [0..<h * w]"
proof (induction h)
  case 0
  show ?case by simp
next
  case (Suc h)
  have "[0..<h * w + w] = [0..<h * w] @ [h * w..<h * w + w]"
    by (rule upt_add_eq_append) simp
  moreover have "[h * w..<h * w + w] = map (\<lambda>i. i + h * w) [0..<w]"
    by (simp add: map_add_upt add.commute)
  moreover have "Suc h * w = h * w + w" by simp
  ultimately have "[0..<Suc h * w] = [0..<h * w] @ map (\<lambda>i. i + h * w) [0..<w]"
    by (simp only:)
  moreover have "map (\<lambda>k. (k div w, k mod w)) (map (\<lambda>i. i + h * w) [0..<w]) =
      map (Pair h) [0..<w]"
    by (auto simp: comp_def)
  ultimately show ?case using Suc by simp
qed

subsection \<open>The classifiers as tables of rows\<close>

lemma generate_npc_base_sprite_rows:
  "generate_npc_base_sprite (w, h) =
     map (\<lambda>y. map (\<lambda>x. if y < 4 then ''skin'' else if y < 8 then ''skin''
                        else if y < 16 then ''clothing'' else ''clothing'') (py_range w))
         (py_range h)"
  by (simp add: generate_npc_base_sprite_def fold_append_map)

lemma generate_building_sprite_rows:
  "generate_building_sprite bt (w, h) =
     map (\<lambda>y. map (\<lambda>x. if y < 4 then ''terrain''
                        else if y < h - 4 then ''stone'' else ''#2F2F2F'') (py_range w))
         (py_range h)"
  by (simp add: generate_building_sprite_def fold_append_map)

lemma generate_terrain_tile_rows:
  "generate_terrain_tile (w, h) = replicate (nat h) (replicate (nat w) ''terrain_base'')"
  by (simp add: generate_terrain_tile_def fold_append_map map_replicate_const length_py_range)

lemma generate_ui_icon_rows:
  "generate_ui_icon it (w, h) =
     map (\<lambda>y. map (\<lambda>x. if y < 2 \<or> y \<ge> h - 2 \<or> x < 2 \<or> x \<ge> w - 2
                        then ''border'' else ''background'') (py_range w))
         (py_range h)"
  by (simp add: generate_ui_icon_def fold_append_map)

lemma generate_npc_base_sprite_nth:
  "y < nat h \<Longrightarrow> x < nat w \<Longrightarrow>
   generate_npc_base_sprite (w, h) ! y ! x = (if int y < 8 then ''skin'' else ''clothing'')"
  by (simp add: generate_npc_base_sprite_rows length_py_range nth_py_range)

lemma generate_building_sprite_nth:
  "y < nat h \<Longrightarrow> x < nat w \<Longrightarrow>
   generate_building_sprite bt (w, h) ! y ! x =
     (if int y < 4 then ''terrain'' else if int y < h - 4 then ''stone'' else ''#2F2F2F'')"
  by (simp add: generate_building_sprite_rows length_py_range nth_py_range)

lemma generate_ui_icon_nth:
  "y < nat h \<Longrightarrow> x < nat w \<Longrightarrow>
   generate_ui_icon it (w, h) ! y ! x =
     (if int y < 2 \<or> int y \<ge> h - 2 \<or> int x < 2 \<or> int x \<ge> w - 2
      then ''border'' else ''background'')"
  by (simp add: generate_ui_icon_rows length_py_range nth_py_range)

subsection \<open>Grids that resolve nowhere, and the keys of the resolution tables\<close>

lemma pixel_of_unresolved:
  assumes "\<And>t. t \<in> set (concat pixels) \<Longrightarrow> cm t = None"
  shows "pixel_of cm pixels y x = RGBA 0 0 0 0"
proof (cases "y < length pixels \<and> x < length (pixels ! y)")
  case True
  then have "pixels ! y ! x \<in> set (concat pixels)"
    by (auto intro!: bexI[of _ "pixels ! y"])
  then show ?thesis using assms by (simp add: pixel_of_def resolved_def)
next
  case False
  then show ?thesis by (auto simp: pixel_of_def resolved_def)
qed

lemma resolved_unresolved:
  assumes "\<And>t. t \<in> set (concat pixels) \<Longrightarrow> cm t = None"
  shows "resolved cm pixels y x = None"
proof (cases "y < length pixels \<and> x < length (pixels ! y)")
  case True
  then have "pixels ! y ! x \<in> set (concat pixels)"
    by (auto intro!: bexI[of _ "pixels ! y"])
  then show ?thesis using assms True by (simp add: resolved_def)
next
  case False
  then show ?thesis by (auto simp: resolved_def)
qed

lemma create_pixel_image_unresolved:
  assumes "\<And>t. t \<in> set (concat pixels) \<Longrightarrow> build_color_map pal t = None"
  shows "create_pixel_image (int w) (int h) pixels pal =
     Inr \<lparr>img_size = (w, h), img_data = replicate h (replicate w (RGBA 0 0 0 0))\<rparr>"
proof -
  have "pixel_of (build_color_map pal) pixels y = (\<lambda>x. RGBA 0 0 0 0)" for y
    using assms by (intro ext pixel_of_unresolved)
  moreover have "resolved (build_color_map pal) pixels y x = None" for y x
    using assms by (rule resolved_unresolved)
  then have "resolved (build_color_map pal) pixels y x \<noteq> Some (Str s)" for y x s
    by simp
  then have "create_pixel_image (int w) (int h) pixels pal =
     Inr \<lparr>img_size = (nat (int w), nat (int h)), img_data =
        map (\<lambda>y. map (pixel_of (build_color_map pal) pixels y) [0..<nat (int w)])
          [0..<nat (int h)]\<rparr>"
    by (intro create_pixel_image_eq) simp_all
  ultimately show ?thesis by (simp add: map_replicate_const)
qed

lemma npc_tokens: "set (concat (generate_npc_base_sprite (w, h))) \<subseteq> {''skin'', ''clothing''}"
  by (auto simp: generate_npc_base_sprite_rows)

lemma icon_tokens: "set (concat (generate_ui_icon it (w, h))) \<subseteq> {''border'', ''background''}"
  by (auto simp: generate_ui_icon_rows)

lemma terrain_tokens: "set (concat (generate_terrain_tile (w, h))) \<subseteq> {''terrain_base''}"
  by (auto simp: generate_terrain_tile_rows)

lemma default_color_map_misses:
  "default_color_map ''border'' = None" "default_color_map ''background'' = None"
  "default_color_map ''terrain_base'' = None"
  by (simp_all add: default_color_map_def)

lemma fold_colors_None:
  "fold (\<lambda>color m'. m'(color \<mapsto> Str color)) cs m t = None \<longleftrightarrow> t \<notin> set cs \<and> m t = None"
  by (induction cs arbitrary: m) auto

lemma fold_palette_None:
  "fold (\<lambda>era_colors m. fold (\<lambda>color m'. m'(color \<mapsto> Str color)) era_colors m) css m t = None
     \<longleftrightarrow> t \<notin> set (concat css) \<and> m t = None"
  by (induction css arbitrary: m) (auto simp: fold_colors_None)

lemma palette_color_map_eq_None:
  "palette_color_map p t = None \<longleftrightarrow>
     t \<notin> set (concat (map snd p)) \<and>
     t \<notin> {''transparent'', ''#000000'', ''#FFFFFF'', ''#2F2F2F'', ''stone'', ''terrain''}"
  by (simp add: palette_color_map_def fold_palette_None)

lemma era_colors_hex:
  "list_all (\<lambda>(era, palette). list_all (\<lambda>c. hd c = CHR ''#'') (concat (map snd palette)))
     PALETTES"
  by (simp add: PALETTES_def)

lemma era_palette_misses:
  assumes "(era, palette) \<in> set PALETTES" "hd t \<noteq> CHR ''#''"
    "t \<notin> {''transparent'', ''stone'', ''terrain''}"
  shows "build_color_map (Some palette) t = None"
proof -
  from assms(1) era_colors_hex
  have hex: "\<forall>c \<in> set (concat (map snd palette)). hd c = CHR ''#''"
    by (auto simp: list_all_iff)
  with assms(2) have "t \<notin> set (concat (map snd palette))" by blast
  moreover have "t \<notin> {''#000000'', ''#FFFFFF'', ''#2F2F2F''}" using assms(2) by auto
  ultimately have "palette_color_map palette t = None"
    using assms(3) by (simp add: palette_color_map_eq_None)
  moreover have "t \<notin> {''#8B4513'', ''#228B22'', ''#D2B48C'', ''#2F2F2F''}"
    using assms(2) by auto
  then have "default_color_map t = None"
    using assms(3) by (simp add: default_color_map_def)
  ultimately show ?thesis by (simp add: build_color_map_def)
qed

lemma era_table:
  assumes "era \<in> set (map fst PALETTES)"
  shows "\<exists>palette. getitem PALETTES era = Inr palette \<and>
      build_color_map (Some palette) ''skin'' = None \<and>
      build_color_map (Some palette) ''clothing'' = None"
proof -
  from assms obtain palette where m: "map_of PALETTES era = Some palette"
    by (metis map_of_eq_None_iff not_Some_eq set_map)
  then have "(era, palette) \<in> set PALETTES" by (rule map_of_SomeD)
  then have "build_color_map (Some palette) ''skin'' = None \<and>
      build_color_map (Some palette) ''clothing'' = None"
    by (simp add: era_palette_misses)
  with m show ?thesis by (simp add: getitem_def)
qed

lemma npc_image_era:
  assumes "era \<in> set (map fst PALETTES)"
  shows "npc_image era animation direction =
     Inr \<lparr>img_size = (16, 24), img_data = replicate 24 (replicate 16 (RGBA 0 0 0 0))\<rparr>"
proof -
  from era_table[OF assms] obtain palette where p: "getitem PALETTES era = Inr palette"
    "build_color_map (Some palette) ''skin'' = None"
    "build_color_map (Some palette) ''clothing'' = None" by blast
  have "create_pixel_image 16 24 (generate_npc_base_sprite (16, 24)) (Some palette) =
     Inr \<lparr>img_size = (16, 24), img_data = replicate 24 (replicate 16 (RGBA 0 0 0 0))\<rparr>"
    using npc_tokens[of 16 24] p(2,3) by (intro create_pixel_image_unresolved[of _ _ 16 24, simplified]) auto
  with p(1) show ?thesis by (simp add: npc_image_def)
qed

lemma nth_in_concat:
  "y < length g \<Longrightarrow> x < length (g ! y) \<Longrightarrow> g ! y ! x \<in> set (concat g)"
  by (auto intro!: bexI[of _ "g ! y"])

subsection \<open>The building image of the driver\<close>

lemma default_color_map_hits:
  "default_color_map ''terrain'' = Some (RGBA 139 69 19 255)"
  "default_color_map ''stone'' = Some (RGBA 128 128 128 255)"
  "default_color_map ''#2F2F2F'' = Some (RGBA 47 47 47 255)"
  by (simp_all add: default_color_map_def)

lemma building_pixel_of:
  assumes "y < 32" "x < 32"
  shows "pixel_of (build_color_map None) (generate_building_sprite b (32, 32)) y x =
     (if y < 4 then RGBA 139 69 19 255
      else if y < 28 then RGBA 128 128 128 255 else RGBA 47 47 47 255)"
proof -
  have len: "length (generate_building_sprite b (32, 32)) = 32"
    "length (generate_building_sprite b (32, 32) ! y) = 32"
    using assms by (simp_all add: generate_building_sprite_rows length_py_range)
  have tok: "generate_building_sprite b (32, 32) ! y ! x =
     (if y < 4 then ''terrain'' else if y < 28 then ''stone'' else ''#2F2F2F'')"
    using assms by (auto simp: generate_building_sprite_nth)
  show ?thesis using assms len
    by (simp add: pixel_of_def resolved_def tok build_color_map_def default_color_map_hits)
qed

lemma building_image_eq:
  "building_image b =
     Inr \<lparr>img_size = (32, 32), img_data =
        replicate 4 (replicate 32 (RGBA 139 69 19 255)) @
        replicate 24 (replicate 32 (RGBA 128 128 128 255)) @
        replicate 4 (replicate 32 (RGBA 47 47 47 255))\<rparr>"
proof -
  let ?px = "pixel_of (build_color_map None) (generate_building_sprite b (32, 32))"
  let ?c = "\<lambda>y::nat. if y < 4 then RGBA 139 69 19 255
      else if y < 28 then RGBA 128 128 128 255 else RGBA 47 47 47 255"
  have row: "map (?px y) [0..<32] = replicate 32 (?c y)" if "y < 32" for y
    using that by (intro nth_equalityI) (simp_all add: building_pixel_of)
  have "map (\<lambda>y. map (?px y) [0..<32]) [0..<32] = map (\<lambda>y. replicate 32 (?c y)) [0..<32]"
    by (rule map_cong[OF refl]) (simp add: row)
  also have "\<dots> = replicate 4 (replicate 32 (RGBA 139 69 19 255)) @
        replicate 24 (replicate 32 (RGBA 128 128 128 255)) @
        replicate 4 (replicate 32 (RGBA 47 47 47 255))"
    by (intro nth_equalityI) (auto simp: nth_append)
  finally show ?thesis by (simp add: building_image_def create_pixel_image_default_eq)
qed

subsection \<open>The driver writes 221 images and never fails\<close>

lemma for_each_appending:
  assumes "\<And>x s. x \<in> set xs \<Longrightarrow> body x s = Inr (s @ h x)"
  shows "for_each xs body s = Inr (s @ concat (map h xs))"
  using assms by (induction xs arbitrary: s) simp_all

lemma save_result_Inr: "save_result (Inr img) filepath fs = Inr (fs @ [(filepath, img)])"
  by (simp add: save_result_def save_sprite_pil_def)

lemma icon_image_eq:
  "icon_image icon =
     Inr \<lparr>img_size = (16, 16), img_data = replicate 16 (replicate 16 (RGBA 0 0 0 0))\<rparr>"
proof -
  have "create_pixel_image 16 16 (generate_ui_icon icon (16, 16)) None =
     Inr \<lparr>img_size = (16, 16), img_data = replicate 16 (replicate 16 (RGBA 0 0 0 0))\<rparr>"
    using icon_tokens[of icon 16 16]
    by (intro create_pixel_image_unresolved[of _ _ 16 16, simplified])
       (auto simp: build_color_map_def default_color_map_misses)
  then show ?thesis by (simp add: icon_image_def)
qed

lemma terrain_image_eq:
  "terrain_image terrain =
     Inr \<lparr>img_size = (16, 16), img_data = replicate 16 (replicate 16 (RGBA 0 0 0 0))\<rparr>"
proof -
  have "create_pixel_image 16 16 (generate_terrain_tile (16, 16)) None =
     Inr \<lparr>img_size = (16, 16), img_data = replicate 16 (replicate 16 (RGBA 0 0 0 0))\<rparr>"
    using terrain_tokens[of 16 16]
    by (intro create_pixel_image_unresolved[of _ _ 16 16, simplified])
       (auto simp: build_color_map_def default_color_map_misses)
  then show ?thesis by (simp add: terrain_image_def)
qed

lemma generate_npcs_eq:
  "\<exists>new. generate_npcs output_dir fs = Inr (fs @ new) \<and> length new = 192"
proof -
  let ?T = "\<lparr>img_size = (16, 24), img_data = replicate 24 (replicate 16 (RGBA 0 0 0 0))\<rparr>"
  let ?hd = "\<lambda>era animation direction.
     [([output_dir, ''Sprites'', ''NPCs'', era, animation, direction @ ''.png''], ?T)]"
  let ?ha = "\<lambda>era animation. concat (map (?hd era animation) DIRECTIONS)"
  let ?he = "\<lambda>era. concat (map (?ha era) ANIMATIONS)"
  have dirs: "for_each DIRECTIONS (\<lambda>direction.
           save_result (npc_image era animation direction)
             [output_dir, ''Sprites'', ''NPCs'', era, animation, direction @ ''.png'']) s =
        Inr (s @ ?ha era animation)"
    if "era \<in> set (map fst PALETTES)" for era animation s
    by (rule for_each_appending) (simp add: npc_image_era[OF that] save_result_Inr)
  have anims: "for_each ANIMATIONS (\<lambda>animation.
         for_each DIRECTIONS (\<lambda>direction.
           save_result (npc_image era animation direction)
             [output_dir, ''Sprites'', ''NPCs'', era, animation, direction @ ''.png''])) s =
        Inr (s @ ?he era)"
    if "era \<in> set (map fst PALETTES)" for era s
    by (rule for_each_appending) (rule dirs[OF that])
  have "generate_npcs output_dir fs = Inr (fs @ concat (map ?he (map fst PALETTES)))"
    unfolding generate_npcs_def by (rule for_each_appending) (rule anims)
  moreover have "length (concat (map ?he (map fst PALETTES))) = 192"
    by (simp add: length_concat comp_def sum_list_triv ANIMATIONS_def DIRECTIONS_def PALETTES_def)
  ultimately show ?thesis by blast
qed

lemma generate_buildings_eq:
  "\<exists>new. generate_buildings output_dir fs = Inr (fs @ new) \<and> length new = 11"
proof -
  let ?h = "\<lambda>building. [([output_dir, ''Sprites'', ''Buildings'', building @ ''.png''],
     \<lparr>img_size = (32, 32), img_data =
        replicate 4 (replicate 32 (RGBA 139 69 19 255)) @
        replicate 24 (replicate 32 (RGBA 128 128 128 255)) @
        replicate 4 (replicate 32 (RGBA 47 47 47 255))\<rparr>)]"
  have "generate_buildings output_dir fs = Inr (fs @ concat (map ?h buildings))"
    unfolding generate_buildings_def
    by (rule for_each_appending) (simp add: building_image_eq save_result_Inr)
  moreover have "length (concat (map ?h buildings)) = 11"
    by (simp add: length_concat comp_def sum_list_triv buildings_def)
  ultimately show ?thesis by blast
qed

lemma generate_terrains_eq:
  "\<exists>new. generate_terrains output_dir fs = Inr (fs @ new) \<and> length new = 7"
proof -
  let ?h = "\<lambda>terrain. [([output_dir, ''Sprites'', ''Terrain'', terrain @ ''.png''],
     \<lparr>img_size = (16, 16), img_data = replicate 16 (replicate 16 (RGBA 0 0 0 0))\<rparr>)]"
  have "generate_terrains output_dir fs = Inr (fs @ concat (map ?h terrains))"
    unfolding generate_terrains_def
    by (rule for_each_appending) (simp add: terrain_image_eq save_result_Inr)
  moreover have "length (concat (map ?h terrains)) = 7"
    by (simp add: length_concat comp_def sum_list_triv terrains_def)
  ultimately show ?thesis by blast
qed

lemma generate_icons_eq:
  "\<exists>new. generate_icons output_dir fs = Inr (fs @ new) \<and> length new = 11"
proof -
  let ?h = "\<lambda>icon. [([output_dir, ''Sprites'', ''UI'', icon @ ''.png''],
     \<lparr>img_size = (16, 16), img_data = replicate 16 (replicate 16 (RGBA 0 0 0 0))\<rparr>)]"
  have "generate_icons output_dir fs = Inr (fs @ concat (map ?h icons))"
    unfolding generate_icons_def
    by (rule for_each_appending) (simp add: icon_image_eq save_result_Inr)
  moreover have "length (concat (map ?h icons)) = 11"
    by (simp add: length_concat comp_def sum_list_triv icons_def)
  ultimately show ?thesis by blast
qed

lemma generate_all_sprites_total:
  "\<exists>fs. generate_all_sprites output_dir = Inr fs \<and> length fs = 221"
proof -
  obtain n1 where 1: "generate_npcs output_dir [] = Inr ([] @ n1)" "length n1 = 192"
    using generate_npcs_eq by blast
  obtain n2 where 2: "generate_buildings output_dir n1 = Inr (n1 @ n2)" "length n2 = 11"
    using generate_buildings_eq by blast
  obtain n3 where 3: "generate_terrains output_dir (n1 @ n2) = Inr ((n1 @ n2) @ n3)"
    "length n3 = 7"
    using generate_terrains_eq by blast
  obtain n4 where 4: "generate_icons output_dir ((n1 @ n2) @ n3) = Inr (((n1 @ n2) @ n3) @ n4)"
    "length n4 = 11"
    using generate_icons_eq by blast
  have "generate_all_sprites output_dir = Inr (((n1 @ n2) @ n3) @ n4)"
    using 1(1) 2(1) 3(1) 4(1) by (simp add: generate_all_sprites_def)
  moreover have "length (((n1 @ n2) @ n3) @ n4) = 221"
    using 1(2) 2(2) 3(2) 4(2) by simp
  ultimately show ?thesis by blast
qed

section \<open>Region classifiers: claims\<close>

text \<open>
  Claim C3. For every UI icon and every coordinate \<open>(x, y)\<close> of a \<open>W \<times> H\<close> grid, the
  icon classifier assigns the token \<open>border\<close> if and only if
  \<open>x < 2 \<or> x \<ge> W - 2 \<or> y < 2 \<or> y \<ge> H - 2\<close>, and \<open>background\<close> otherwise. For
  \<open>W = H = 16\<close> the boundary is exact: on every row away from the top and bottom margins,
  columns 1 and 14 are \<open>border\<close> and columns 2 and 13 are \<open>background\<close>.
\<close>

theorem ui_icon_border_iff:
  "y < nat H \<Longrightarrow> x < nat W \<Longrightarrow>
     (generate_ui_icon icon_type (W, H) ! y ! x = ''border'' \<longleftrightarrow>
        (int x < 2 \<or> int x \<ge> W - 2 \<or> int y < 2 \<or> int y \<ge> H - 2)) \<and>
     (\<not> (int x < 2 \<or> int x \<ge> W - 2 \<or> int y < 2 \<or> int y \<ge> H - 2) \<longrightarrow>
        generate_ui_icon icon_type (W, H) ! y ! x = ''background'') \<and>
     (\<forall>y'. 2 \<le> y' \<and> y' < 14 \<longrightarrow>
        generate_ui_icon icon_type (16, 16) ! y' ! 1 = ''border'' \<and>
        generate_ui_icon icon_type (16, 16) ! y' ! 2 = ''background'' \<and>
        generate_ui_icon icon_type (16, 16) ! y' ! 13 = ''background'' \<and>
        generate_ui_icon icon_type (16, 16) ! y' ! 14 = ''border'')"
  by (auto simp: generate_ui_icon_nth)

theorem ui_icon_border_iff_witness:
  "(3::nat) < nat 16 \<and> (1::nat) < nat 16 \<and> (2::nat) < nat 16 \<and>
   generate_ui_icon ''food'' (16, 16) ! 3 ! 1 = ''border'' \<and>
   generate_ui_icon ''food'' (16, 16) ! 3 ! 2 = ''background'' \<and>
   generate_ui_icon ''food'' (16, 16) ! 3 ! 13 = ''background'' \<and>
   generate_ui_icon ''food'' (16, 16) ! 3 ! 14 = ''border'' \<and>
   generate_ui_icon ''gold'' (16, 16) ! 1 ! 2 = ''border'' \<and>
   generate_ui_icon ''gold'' (16, 16) ! 14 ! 13 = ''border''"
  using ui_icon_border_iff [of 3 16 1 16 "''food''"]
    ui_icon_border_iff [of 3 16 2 16 "''food''"]
    ui_icon_border_iff [of 1 16 2 16 "''gold''"]
    ui_icon_border_iff [of 14 16 13 16 "''gold''"]
  by simp

text \<open>
  Claim C6. At the default size \<open>32 \<times> 32\<close>, and at every width and every height of at
  least 8, each row \<open>y\<close> of a building grid is \<open>terrain\<close> when \<open>y < 4\<close> (roof),
  \<open>stone\<close> when \<open>4 \<le> y < H - 4\<close> (wall) and the literal \<open>#2F2F2F\<close> when
  \<open>y \<ge> H - 4\<close> (foundation), in every column.
\<close>

theorem building_bands_default:
  "8 \<le> H \<Longrightarrow> y < nat H \<Longrightarrow> x < nat W \<Longrightarrow>
     (int y < 4 \<longrightarrow> generate_building_sprite building_type (W, H) ! y ! x = ''terrain'') \<and>
     (4 \<le> int y \<and> int y < H - 4 \<longrightarrow>
        generate_building_sprite building_type (W, H) ! y ! x = ''stone'') \<and>
     (int y \<ge> H - 4 \<longrightarrow> generate_building_sprite building_type (W, H) ! y ! x = ''#2F2F2F'')"
  by (auto simp: generate_building_sprite_nth)

theorem building_bands_default_witness:
  "(8::int) \<le> 32 \<and>
   generate_building_sprite ''castle'' (32, 32) ! 3 ! 0 = ''terrain'' \<and>
   generate_building_sprite ''castle'' (32, 32) ! 4 ! 31 = ''stone'' \<and>
   generate_building_sprite ''castle'' (32, 32) ! 27 ! 5 = ''stone'' \<and>
   generate_building_sprite ''castle'' (32, 32) ! 28 ! 5 = ''#2F2F2F''"
  using building_bands_default [of 32 3 0 32 "''castle''"]
    building_bands_default [of 32 4 31 32 "''castle''"]
    building_bands_default [of 32 27 5 32 "''castle''"]
    building_bands_default [of 32 28 5 32 "''castle''"]
  by simp

text \<open>
  Claim C2, as stated: for a size whose height is below the threshold constants (a
  building height under 8), later row bands overwrite earlier ones, so that the last band
  condition a row matches determines its token. The bands are those the specification
  lists (\<open>building_bands\<close>). This fails: at height 6, row 3 matches the roof band
  \<open>y < 4\<close> and the foundation band \<open>y \<ge> H - 4\<close>, and the classifier's
  \<open>if\<close>/\<open>elif\<close> chain gives it the roof token \<open>terrain\<close>, not the foundation token.
\<close>

theorem building_last_band_counterexample:
  "Some (generate_building_sprite ''hut'' (1, 6) ! 3 ! 0) \<noteq>
     last_matching (building_bands 6) 3"
  by (simp add: generate_building_sprite_nth last_matching_def matching_def building_bands_def)

text \<open>
  Claim C2, amended: for every size, heights below the threshold constants included, the
  first band condition a row matches determines its token, in every column: earlier row
  bands take precedence over later ones and no band overwrites another. This holds for
  the building classifier and for the character classifier.
\<close>

theorem first_band_wins:
  "y < nat H \<Longrightarrow> x < nat W \<Longrightarrow>
     first_matching (building_bands H) (int y) =
       Some (generate_building_sprite building_type (W, H) ! y ! x) \<and>
     first_matching character_bands (int y) =
       Some (generate_npc_base_sprite (W, H) ! y ! x)"
  by (auto simp: generate_building_sprite_nth generate_npc_base_sprite_nth
      first_matching_def matching_def building_bands_def character_bands_def)

theorem first_band_wins_witness:
  "(3::nat) < nat 6 \<and> (0::nat) < nat 1 \<and>
   first_matching (building_bands 6) 3 = Some ''terrain'' \<and>
   generate_building_sprite ''hut'' (1, 6) ! 3 ! 0 = ''terrain'' \<and>
   last_matching (building_bands 6) 3 = Some ''#2F2F2F'' \<and>
   generate_npc_base_sprite (1, 6) ! 3 ! 0 = ''skin''"
  using first_band_wins [of 3 6 0 1 "''hut''"]
  by (simp add: generate_building_sprite_nth generate_npc_base_sprite_nth first_matching_def
      last_matching_def matching_def building_bands_def)

section \<open>Rasterized sprites: claims\<close>

text \<open>
  Claim C1. For every era, animation and direction, the character image the driver
  produces has exactly the declared dimensions \<open>16 \<times> 24\<close> and every pixel of it is
  fully transparent, \<open>(0, 0, 0, 0)\<close>: the character classifier emits exactly the tokens
  \<open>skin\<close> and \<open>clothing\<close>, and neither is a key of the resolution table built from
  the palette of the era.
\<close>

theorem npc_image_transparent:
  "era \<in> set (map fst PALETTES) \<Longrightarrow>
     npc_image era animation direction =
       Inr \<lparr>img_size = (16, 24), img_data = replicate 24 (replicate 16 (RGBA 0 0 0 0))\<rparr> \<and>
     set (concat (generate_npc_base_sprite (16, 24))) = {''skin'', ''clothing''} \<and>
     (\<exists>palette. getitem PALETTES era = Inr palette \<and>
        ''skin'' \<notin> dom (build_color_map (Some palette)) \<and>
        ''clothing'' \<notin> dom (build_color_map (Some palette)))"
proof (intro conjI)
  assume era: "era \<in> set (map fst PALETTES)"
  show "npc_image era animation direction =
       Inr \<lparr>img_size = (16, 24), img_data = replicate 24 (replicate 16 (RGBA 0 0 0 0))\<rparr>"
    using era by (rule npc_image_era)
  show "\<exists>palette. getitem PALETTES era = Inr palette \<and>
        ''skin'' \<notin> dom (build_color_map (Some palette)) \<and>
        ''clothing'' \<notin> dom (build_color_map (Some palette))"
    using era_table[OF era] by (simp add: domIff)
  have "generate_npc_base_sprite (16, 24) ! 0 ! 0 \<in> set (concat (generate_npc_base_sprite (16, 24)))"
    "generate_npc_base_sprite (16, 24) ! 8 ! 0 \<in> set (concat (generate_npc_base_sprite (16, 24)))"
    by (rule nth_in_concat; simp add: generate_npc_base_sprite_rows length_py_range)+
  then have "''skin'' \<in> set (concat (generate_npc_base_sprite (16, 24)))"
    "''clothing'' \<in> set (concat (generate_npc_base_sprite (16, 24)))"
    by (simp_all add: generate_npc_base_sprite_nth)
  then show "set (concat (generate_npc_base_sprite (16, 24))) = {''skin'', ''clothing''}"
    using npc_tokens[of 16 24] by blast
qed

theorem npc_image_transparent_witness:
  "''medieval'' \<in> set (map fst PALETTES) \<and>
   npc_image ''medieval'' ''walk'' ''left'' =
     Inr \<lparr>img_size = (16, 24), img_data = replicate 24 (replicate 16 (RGBA 0 0 0 0))\<rparr>"
proof -
  have h: "''medieval'' \<in> set (map fst PALETTES)" by (simp add: PALETTES_def)
  show ?thesis using h npc_image_transparent [OF h, of "''walk''" "''left''"] by simp
qed

text \<open>
  Claim C9. The character image does not depend on the animation or the direction, and
  the claim expects it to differ between some two eras. Evaluated on the code, the images
  of all eight eras are one and the same fully transparent \<open>16 \<times> 24\<close> image, for every
  animation and direction: no two eras differ.
\<close>

theorem npc_images_equal_across_eras:
  "map (\<lambda>era. npc_image era animation direction) (map fst PALETTES) =
     replicate 8 (Inr \<lparr>img_size = (16, 24),
                        img_data = replicate 24 (replicate 16 (RGBA 0 0 0 0))\<rparr>)"
proof -
  have "map (\<lambda>era. npc_image era animation direction) (map fst PALETTES) =
      map (\<lambda>era. Inr \<lparr>img_size = (16, 24),
                        img_data = replicate 24 (replicate 16 (RGBA 0 0 0 0))\<rparr>)
        (map fst PALETTES)"
    by (rule map_cong[OF refl]) (rule npc_image_era)
  also have "\<dots> = replicate (length PALETTES) (Inr \<lparr>img_size = (16, 24),
                        img_data = replicate 24 (replicate 16 (RGBA 0 0 0 0))\<rparr>)"
    by (simp add: map_replicate_const)
  also have "length PALETTES = 8" by (simp add: PALETTES_def)
  finally show ?thesis .
qed

text \<open>
  Claim C10. Every UI icon image the driver produces is fully transparent at every pixel:
  the icon classifier emits only the tokens \<open>border\<close> and \<open>background\<close> (at every size),
  the driver rasterizes icons without a palette, and neither token is a key of the
  palette-less default resolution table.
\<close>

theorem icon_image_transparent:
  "icon_image icon =
     Inr \<lparr>img_size = (16, 16), img_data = replicate 16 (replicate 16 (RGBA 0 0 0 0))\<rparr> \<and>
   set (concat (generate_ui_icon icon (W, H))) \<subseteq> {''border'', ''background''} \<and>
   ''border'' \<notin> dom (build_color_map None) \<and>
   ''background'' \<notin> dom (build_color_map None)"
proof -
  have miss: "build_color_map None ''border'' = None" "build_color_map None ''background'' = None"
    by (simp_all add: build_color_map_def default_color_map_misses)
  have "create_pixel_image 16 16 (generate_ui_icon icon (16, 16)) None =
     Inr \<lparr>img_size = (16, 16), img_data = replicate 16 (replicate 16 (RGBA 0 0 0 0))\<rparr>"
    using icon_tokens[of icon 16 16] miss by (intro create_pixel_image_unresolved[of _ _ 16 16, simplified]) auto
  then show ?thesis using miss icon_tokens[of icon W H]
    by (simp add: icon_image_def domIff)
qed

text \<open>
  Claim C4. For any two building-type names and the same requested size, the building
  grids are equal, and so are the images rasterized from them, whatever the image size
  and palette: the classifier never reads the name. In the driver every building image
  is the same \<open>32 \<times> 32\<close> image: 4 roof rows, 24 wall rows and 4 foundation rows.
\<close>

theorem building_name_irrelevant:
  "generate_building_sprite name1 sz = generate_building_sprite name2 sz \<and>
   create_pixel_image w h (generate_building_sprite name1 sz) palette =
     create_pixel_image w h (generate_building_sprite name2 sz) palette \<and>
   building_image name1 = building_image name2 \<and>
   building_image name1 =
     Inr \<lparr>img_size = (32, 32), img_data =
        replicate 4 (replicate 32 (RGBA 139 69 19 255)) @
        replicate 24 (replicate 32 (RGBA 128 128 128 255)) @
        replicate 4 (replicate 32 (RGBA 47 47 47 255))\<rparr>"
proof -
  have "generate_building_sprite name1 sz = generate_building_sprite name2 sz"
    by (simp add: generate_building_sprite_def)
  then show ?thesis by (simp add: building_image_eq)
qed

text \<open>
  Claim C5. For every size, the terrain classifier assigns the placeholder token
  \<open>terrain_base\<close> to every cell. All terrain tiles are therefore identical whatever
  the terrain name. Rasterized without a palette into an image of any natural size
  \<open>w \<times> h\<close>, the resolution table is the default table, and each pixel over the grid is the default table's value for \<open>terrain_base\<close>
  when it has one and transparent otherwise; the default table has none, so the driver's
  terrain tile is fully transparent.
\<close>

theorem terrain_tile_placeholder:
  "generate_terrain_tile (W, H) = replicate (nat H) (replicate (nat W) ''terrain_base'') \<and>
   terrain_image terrain1 = terrain_image terrain2 \<and>
   build_color_map None = default_color_map \<and>
   create_pixel_image (int w) (int h) (generate_terrain_tile (W, H)) None =
     Inr \<lparr>img_size = (w, h), img_data =
        map (\<lambda>y. map (\<lambda>x. if y < nat H \<and> x < nat W
                            then (case default_color_map ''terrain_base'' of
                                    Some v \<Rightarrow> v | None \<Rightarrow> RGBA 0 0 0 0)
                            else RGBA 0 0 0 0) [0..<w]) [0..<h]\<rparr> \<and>
   default_color_map ''terrain_base'' = None \<and>
   terrain_image terrain1 =
     Inr \<lparr>img_size = (16, 16), img_data = replicate 16 (replicate 16 (RGBA 0 0 0 0))\<rparr>"
proof -
  have cm: "build_color_map None = default_color_map"
    by (simp add: build_color_map_def)
  have px: "pixel_of default_color_map (generate_terrain_tile (W, H)) y =
      (\<lambda>x. if y < nat H \<and> x < nat W
            then (case default_color_map ''terrain_base'' of
                    Some v \<Rightarrow> v | None \<Rightarrow> RGBA 0 0 0 0)
            else RGBA 0 0 0 0)" for y
    by (rule ext) (auto simp: pixel_of_def resolved_def generate_terrain_tile_rows)
  have general: "create_pixel_image (int w) (int h) (generate_terrain_tile (W, H)) None =
     Inr \<lparr>img_size = (w, h), img_data =
        map (\<lambda>y. map (\<lambda>x. if y < nat H \<and> x < nat W
                            then (case default_color_map ''terrain_base'' of
                                    Some v \<Rightarrow> v | None \<Rightarrow> RGBA 0 0 0 0)
                            else RGBA 0 0 0 0) [0..<w]) [0..<h]\<rparr>"
    using create_pixel_image_default_eq[of "int w" "int h" "generate_terrain_tile (W, H)"]
    by (simp add: cm px)
  have "create_pixel_image 16 16 (generate_terrain_tile (16, 16)) None =
     Inr \<lparr>img_size = (16, 16), img_data = replicate 16 (replicate 16 (RGBA 0 0 0 0))\<rparr>"
    using terrain_tokens[of 16 16]
    by (intro create_pixel_image_unresolved[of _ _ 16 16, simplified]) (auto simp: cm default_color_map_misses)
  then have driver: "terrain_image t =
     Inr \<lparr>img_size = (16, 16), img_data = replicate 16 (replicate 16 (RGBA 0 0 0 0))\<rparr>" for t
    by (simp add: terrain_image_def)
  show ?thesis
    using generate_terrain_tile_rows[of W H] cm general default_color_map_misses(3)
      driver[of terrain1] driver[of terrain2]
    by (simp only: simp_thms)
qed

text \<open>
  Claim C7. The rasterizer is claimed never to fail on a grid smaller than the declared
  image: a pixel outside the grid, or whose token is not a key of the resolution table,
  stays transparent. Evaluated on the code, the guards do protect the grid reads and the
  table lookup, but not the write: with the palette of \<open>stone_age\<close>, the \<open>1 \<times> 1\<close>
  grid holding the palette colour \<open>#D4A574\<close>, rasterized into a \<open>2 \<times> 2\<close> image,
  resolves that token to the colour string itself, and writing a string into the image
  raises \<open>TypeError\<close>. The same grid rasterized without a palette returns the
  transparent \<open>2 \<times> 2\<close> image.
\<close>

theorem rasterizer_palette_colour_fails:
  "\<exists>palette.
     getitem PALETTES ''stone_age'' = Inr palette \<and>
     build_color_map (Some palette) ''#D4A574'' = Some (Str ''#D4A574'') \<and>
     create_pixel_image 2 2 [[''#D4A574'']] (Some palette) = Inl TypeError \<and>
     create_pixel_image 2 2 [[''#D4A574'']] None =
       Inr \<lparr>img_size = (2, 2), img_data = replicate 2 (replicate 2 (RGBA 0 0 0 0))\<rparr>"
proof -
  let ?P = "[(''skin'', [''#D4A574'', ''#C49A6C'', ''#B8956A'']),
             (''clothing'', [''#8B4513'', ''#654321'', ''#4A3728'']),
             (''hair'', [''#2C1810'', ''#3D2314'', ''#1A0F0A'']),
             (''terrain'', [''#7CFC00'', ''#228B22'', ''#808080'', ''#8B7355''])]"
  have g: "getitem PALETTES ''stone_age'' = Inr ?P"
    by (simp add: getitem_def PALETTES_def)
  have cm: "build_color_map (Some ?P) ''#D4A574'' = Some (Str ''#D4A574'')"
    by (simp add: build_color_map_def palette_color_map_def)
  have u: "[0..<2] = [0, Suc 0]" by (simp add: numeral_2_eq_2)
  have fails: "create_pixel_image 2 2 [[''#D4A574'']] (Some ?P) = Inl TypeError"
    by (simp add: create_pixel_image_def Image_new_def u paint_def index_def cm putpixel_def)
  have "build_color_map None ''#D4A574'' = None"
    by (simp add: build_color_map_def default_color_map_def)
  then have ok: "create_pixel_image 2 2 [[''#D4A574'']] None =
       Inr \<lparr>img_size = (2, 2), img_data = replicate 2 (replicate 2 (RGBA 0 0 0 0))\<rparr>"
    by (intro create_pixel_image_unresolved[of _ _ 2 2, simplified]) auto
  from g cm fails ok show ?thesis by blast
qed

section \<open>Atlas descriptor: claim\<close>

text \<open>
  Claim C8. The atlas descriptor written to \<open>sprite_atlas_config.json\<close> is always
  exactly the object with \<open>atlas_name\<close> \<open>ChronoCiv_Sprites\<close>, an empty \<open>sprites\<close>
  array and the \<open>packing\<close> object \<open>power_of_two: true, padding: 2, extrude: 1\<close>,
  whatever the output directory. A run of \<open>main\<close> always completes, writes 221 images,
  and still emits this descriptor with the empty \<open>sprites\<close> array.
\<close>

theorem atlas_config_fixed:
  "create_sprite_atlas_config output_dir =
     ([output_dir, ''sprite_atlas_config.json''],
      JObject [(''atlas_name'', JString ''ChronoCiv_Sprites''),
               (''sprites'', JArray []),
               (''packing'', JObject [(''power_of_two'', JBool True),
                                      (''padding'', JInt 2),
                                      (''extrude'', JInt 1)])]) \<and>
   (\<exists>fs. length fs = 221 \<and>
      main output_dir =
        Inr (fs, [output_dir, ''sprite_atlas_config.json''],
             JObject [(''atlas_name'', JString ''ChronoCiv_Sprites''),
                      (''sprites'', JArray []),
                      (''packing'', JObject [(''power_of_two'', JBool True),
                                             (''padding'', JInt 2),
                                             (''extrude'', JInt 1)])]))"
proof -
  obtain fs where "generate_all_sprites output_dir = Inr fs" "length fs = 221"
    using generate_all_sprites_total by blast
  then show ?thesis
    by (auto simp: main_def create_sprite_atlas_config_def)
qed

end
